theory Spec2Isabelle
  imports
    Complex_Main
    "HOL-Library.Multiset"
    "HOL-Library.Char_ord"
    "HOL-Library.List_Lexorder"
    "HOL-Library.Product_Lexorder"
begin

text \<open>
  A model of the festival planner: the programme registry (\<open>programme_manager.py\<close>), the
  response handling of the image uploader (\<open>image_uploader.py\<close>) and the scoring, upsert
  and overview ordering of the application script (\<open>app.py\<close>).  Exceptions are values of
  a sum type, the remote workbook is an explicit state, and every \<open>try ... except: log;
  raise\<close> wrapper is the identity on the outcome.  Log records are left out, except in
  \<open>replace_sheet_data\<close>, whose warning is part of its contract.
\<close>

section \<open>Python values\<close>

text \<open>
  The planner passes dynamically typed values around: form fields, spreadsheet cells and
  the entries of the dictionaries built from them.  \<open>pyval\<close> covers the kinds that occur
  (strings, integers, floats, booleans, \<open>None\<close> and the float \<open>NaN\<close>).  A float other than
  \<open>NaN\<close> is represented by the rational it denotes.
\<close>

datatype pyval = PStr string | PInt int | PFloat rat | PBool bool | PNone | PNaN

text \<open>The numeric value of a number-like Python value (\<open>True\<close> is \<open>1\<close>, \<open>False\<close> is \<open>0\<close>).\<close>

fun num_of :: "pyval \<Rightarrow> rat option" where
  "num_of (PInt i) = Some (of_int i)"
| "num_of (PFloat r) = Some r"
| "num_of (PBool b) = Some (if b then 1 else 0)"
| "num_of (PStr s) = None"
| "num_of PNone = None"
| "num_of PNaN = None"

text \<open>Python's \<open>==\<close>: numbers compare by value, strings with strings, \<open>None\<close> with itself;
  \<open>NaN\<close> equals nothing.\<close>

fun py_eq :: "pyval \<Rightarrow> pyval \<Rightarrow> bool" where
  "py_eq (PStr s) (PStr t) = (s = t)"
| "py_eq PNone PNone = True"
| "py_eq PNaN v = False"
| "py_eq v PNaN = False"
| "py_eq (PStr s) v = False"
| "py_eq v (PStr s) = False"
| "py_eq PNone v = False"
| "py_eq v PNone = False"
| "py_eq v w = (num_of v = num_of w)"

text \<open>The exceptions that the modelled code lets escape.  The two \<open>raise Exception(...)\<close>
  of the image uploader are \<open>UploadFailed\<close> (carrying the response text) and \<open>ApiError\<close>;
  the failures of the remote spreadsheet service are \<open>StoreAccessError\<close> (credentials,
  workbook or worksheet), \<open>StoreReadError\<close> and \<open>StoreWriteError\<close>.\<close>

datatype exn =
    KeyError string | TypeError | AttributeError | JSONDecodeError
  | UploadFailed string | ApiError
  | StoreAccessError | StoreReadError | StoreWriteError

text \<open>A dictionary with string keys, in insertion order: \<open>d.get(k)\<close> returns \<open>None\<close> for a
  missing key, \<open>d[k]\<close> raises \<open>KeyError\<close>.\<close>

type_synonym pydict = "(string \<times> pyval) list"

definition dict_get :: "pydict \<Rightarrow> string \<Rightarrow> pyval" where
  "dict_get d k = (case map_of d k of None \<Rightarrow> PNone | Some v \<Rightarrow> v)"

definition getitem :: "pydict \<Rightarrow> string \<Rightarrow> exn + pyval" where
  "getitem d k = (case map_of d k of None \<Rightarrow> Inl (KeyError k) | Some v \<Rightarrow> Inr v)"

text \<open>The subscripts of a list display \<open>[d[k1], d[k2], ...]\<close> are evaluated from left to
  right; the first missing key raises.\<close>

fun getitems :: "pydict \<Rightarrow> string list \<Rightarrow> exn + pyval list" where
  "getitems d [] = Inr []"
| "getitems d (k # ks) =
     (case getitem d k of
        Inl e \<Rightarrow> Inl e
      | Inr v \<Rightarrow> (case getitems d ks of Inl e \<Rightarrow> Inl e | Inr vs \<Rightarrow> Inr (v # vs)))"

section \<open>Decimal rendering of integers\<close>

text \<open>\<open>str(n)\<close> for a Python integer, and \<open>str.zfill(width)\<close>, which pads with zeros on the
  left and keeps a leading sign in front of the padding.\<close>

definition digit_char :: "nat \<Rightarrow> char" where
  "digit_char d = char_of (48 + d)"

fun str_nat :: "nat \<Rightarrow> string" where
  "str_nat n = (if n < 10 then [digit_char n] else str_nat (n div 10) @ [digit_char (n mod 10)])"

declare str_nat.simps [simp del]

definition str_int :: "int \<Rightarrow> string" where
  "str_int i = (if i < 0 then CHR ''-'' # str_nat (nat (- i)) else str_nat (nat i))"

definition zfill :: "nat \<Rightarrow> string \<Rightarrow> string" where
  "zfill width s =
     (if width \<le> length s then s
      else (case s of
              [] \<Rightarrow> replicate width CHR ''0''
            | c # cs \<Rightarrow>
                if c = CHR ''+'' \<or> c = CHR ''-''
                then c # replicate (width - length s) CHR ''0'' @ cs
                else replicate (width - length s) CHR ''0'' @ s))"

text \<open>Reading a digit string back as a number; used to state what the rendering means.\<close>

definition is_digit :: "char \<Rightarrow> bool" where
  "is_digit c = (48 \<le> (of_char c :: nat) \<and> (of_char c :: nat) \<le> 57)"

definition decimal_value :: "string \<Rightarrow> nat" where
  "decimal_value s = foldl (\<lambda>acc c. 10 * acc + (of_char c - 48)) 0 s"

text \<open>\<open>str(v)\<close> for a cell value.  The text of a float is left to the parameter
  \<open>float_str\<close>.\<close>

fun py_str :: "(rat \<Rightarrow> string) \<Rightarrow> pyval \<Rightarrow> string" where
  "py_str float_str (PStr s) = s"
| "py_str float_str (PInt i) = str_int i"
| "py_str float_str (PFloat r) = float_str r"
| "py_str float_str (PBool b) = (if b then ''True'' else ''False'')"
| "py_str float_str PNone = ''None''"
| "py_str float_str PNaN = ''nan''"

section \<open>The remote spreadsheet\<close>

text \<open>
  A worksheet is its header row (row 1) and the rows below it (rows 2, 3, ...), each a
  list of cells starting at column A; an empty cell holds the empty string.  A cell is
  represented by the value that the client library reports for it when the sheet is read.
  The workbook maps sheet names to worksheets.  The remote calls can fail; \<open>fails\<close> names
  the kinds of call that do.
\<close>

datatype remote_op = OpAccess | OpRead | OpClear | OpAppend

record sheet =
  header :: "string list"
  rows :: "pyval list list"

record store =
  sheets :: "string \<rightharpoonup> sheet"
  fails :: "remote_op set"

definition blank :: pyval where
  "blank = PStr []"

definition blank_row :: "pyval list \<Rightarrow> bool" where
  "blank_row r = list_all (\<lambda>c. c = blank) r"

text \<open>The service reports the rows up to the last one that holds a value, and appends
  after that row.\<close>

definition trim_rows :: "pyval list list \<Rightarrow> pyval list list" where
  "trim_rows rs = rev (dropWhile blank_row (rev rs))"

definition pad_row :: "nat \<Rightarrow> pyval list \<Rightarrow> pyval list" where
  "pad_row n r = r @ replicate (n - length r) blank"

text \<open>\<open>ProgrammeManager.get_sheet\<close>: the handle of a worksheet is its name.\<close>

definition get_sheet :: "store \<Rightarrow> string \<Rightarrow> exn + string" where
  "get_sheet st sheet_name =
     (if OpAccess \<in> fails st then Inl StoreAccessError
      else (case sheets st sheet_name of
              None \<Rightarrow> Inl StoreAccessError
            | Some s \<Rightarrow> Inr sheet_name))"

text \<open>\<open>sheet.get_all_records()\<close>: one dictionary per data row, keyed by the header.\<close>

definition sheet_records :: "sheet \<Rightarrow> pydict list" where
  "sheet_records s =
     map (\<lambda>r. zip (header s) (pad_row (length (header s)) r)) (trim_rows (rows s))"

definition get_all_records :: "store \<Rightarrow> string \<Rightarrow> exn + pydict list" where
  "get_all_records st sheet =
     (if OpRead \<in> fails st then Inl StoreReadError
      else (case sheets st sheet of
              None \<Rightarrow> Inl StoreReadError
            | Some s \<Rightarrow> Inr (sheet_records s)))"

text \<open>\<open>sheet.append_rows(rows)\<close> and \<open>sheet.append_row(row)\<close>.\<close>

definition append_rows :: "store \<Rightarrow> string \<Rightarrow> pyval list list \<Rightarrow> exn + store" where
  "append_rows st sheet new_rows =
     (if OpAppend \<in> fails st then Inl StoreWriteError
      else (case sheets st sheet of
              None \<Rightarrow> Inl StoreWriteError
            | Some s \<Rightarrow>
                Inr (st\<lparr>sheets := (sheets st)(sheet \<mapsto> s\<lparr>rows := trim_rows (rows s) @ new_rows\<rparr>)\<rparr>)))"

definition append_row :: "store \<Rightarrow> string \<Rightarrow> pyval list \<Rightarrow> exn + store" where
  "append_row st sheet row = append_rows st sheet [row]"

text \<open>A cell range in A1 notation, as row and column numbers counted from 1, both ends
  included; \<open>A2:Z1000\<close> is rows 2 to 1000 of columns 1 to 26.\<close>

record a1_range =
  first_row :: nat
  last_row :: nat
  first_col :: nat
  last_col :: nat

definition A2_Z1000 :: a1_range where
  "A2_Z1000 = \<lparr>first_row = 2, last_row = 1000, first_col = 1, last_col = 26\<rparr>"

text \<open>Clearing a range empties the cells inside it and leaves every other cell alone.
  \<open>clear_cols\<close> walks one row from column \<open>j\<close>, \<open>clear_grid\<close> walks the rows from row \<open>i\<close>.\<close>

fun clear_cols :: "a1_range \<Rightarrow> 'a \<Rightarrow> nat \<Rightarrow> 'a list \<Rightarrow> 'a list" where
  "clear_cols rng blk j [] = []"
| "clear_cols rng blk j (c # cs) =
     (if first_col rng \<le> j \<and> j \<le> last_col rng then blk else c)
       # clear_cols rng blk (Suc j) cs"

fun clear_grid :: "a1_range \<Rightarrow> 'a \<Rightarrow> nat \<Rightarrow> 'a list list \<Rightarrow> 'a list list" where
  "clear_grid rng blk i [] = []"
| "clear_grid rng blk i (r # rs) =
     (if first_row rng \<le> i \<and> i \<le> last_row rng then clear_cols rng blk 1 r else r)
       # clear_grid rng blk (Suc i) rs"

definition batch_clear :: "store \<Rightarrow> string \<Rightarrow> a1_range \<Rightarrow> exn + store" where
  "batch_clear st sheet rng =
     (if OpClear \<in> fails st then Inl StoreWriteError
      else (case sheets st sheet of
              None \<Rightarrow> Inl StoreWriteError
            | Some s \<Rightarrow>
                Inr (st\<lparr>sheets := (sheets st)(sheet \<mapsto>
                       s\<lparr>header := hd (clear_grid rng [] 1 [header s]),
                         rows := clear_grid rng blank 2 (rows s)\<rparr>)\<rparr>)))"

section \<open>Programme registry\<close>

text \<open>The settings and resources that \<open>ProgrammeManager.__init__\<close> loads: the
  category-to-code table (a JSON resource file) and the sheet names.\<close>

record config =
  CATEGORY_CODES :: "string \<rightharpoonup> string"
  FILMS_LIST_SHEET :: string
  TALKS_SHEET :: string
  PROGRAMME_SELECTION_SHEET :: string

text \<open>\<open>ProgrammeManager.generate_sl_no\<close>.\<close>

definition generate_sl_no :: "store \<Rightarrow> string \<Rightarrow> pyval \<Rightarrow> exn + int" where
  "generate_sl_no st sheet category =
     (case get_all_records st sheet of
        Inl e \<Rightarrow> Inl e
      | Inr data \<Rightarrow>
          let same_category_rows = filter (\<lambda>row. py_eq (dict_get row ''CATEGORY'') category) data;
              sl_no = int (length same_category_rows) + 1
          in Inr sl_no)"

text \<open>\<open>ProgrammeManager.generate_programme_id\<close>.  The keys of the code table are strings,
  so a category that is not a string is never found and gets the default.\<close>

definition codes_get :: "config \<Rightarrow> pyval \<Rightarrow> string" where
  "codes_get self category =
     (case category of
        PStr c \<Rightarrow> (case CATEGORY_CODES self c of Some code \<Rightarrow> code | None \<Rightarrow> ''X'')
      | _ \<Rightarrow> ''X'')"

definition generate_programme_id :: "config \<Rightarrow> pyval \<Rightarrow> int \<Rightarrow> string" where
  "generate_programme_id self category sl_no =
     (let code = codes_get self category
      in code @ zfill 3 (str_int sl_no))"

text \<open>\<open>ProgrammeManager.add_programme_entry\<close>.  The result is the workbook after the call
  and either the exception that escaped or the programme identifier returned.\<close>

definition talks_fields :: "string list" where
  "talks_fields = [''topic'', ''duration'', ''image_url'']"

definition film_fields :: "string list" where
  "film_fields = [''international_title'', ''original_title'', ''year'', ''runtime'',
     ''language'', ''country'', ''director'', ''synopsis'', ''image_url'', ''letterboxd_url'']"

definition add_programme_entry :: "config \<Rightarrow> store \<Rightarrow> pydict \<Rightarrow> store \<times> (exn + string)" where
  "add_programme_entry self st data =
     (case getitem data ''category'' of
        Inl e \<Rightarrow> (st, Inl e)
      | Inr category \<Rightarrow>
          let talks = py_eq category (PStr ''Talks & Conversations'');
              sheet_name = (if talks then TALKS_SHEET self else FILMS_LIST_SHEET self)
          in (case get_sheet st sheet_name of
                Inl e \<Rightarrow> (st, Inl e)
              | Inr sheet \<Rightarrow>
                  (case generate_sl_no st sheet category of
                     Inl e \<Rightarrow> (st, Inl e)
                   | Inr sl_no \<Rightarrow>
                       let programme_id = generate_programme_id self category sl_no
                       in (case getitems data (if talks then talks_fields else film_fields) of
                             Inl e \<Rightarrow> (st, Inl e)
                           | Inr vals \<Rightarrow>
                               let row = [category, PInt sl_no, PStr programme_id] @ vals
                               in (case append_row st sheet row of
                                     Inl e \<Rightarrow> (st, Inl e)
                                   | Inr st' \<Rightarrow> (st', Inr programme_id))))))"

text \<open>For stating what \<open>add_programme_entry\<close> does: the sheet chosen for a category, the
  keys it reads for a category after \<open>category\<close> itself, and whether a sheet can be opened
  and read.\<close>

definition target_sheet :: "config \<Rightarrow> pyval \<Rightarrow> string" where
  "target_sheet self category =
     (if py_eq category (PStr ''Talks & Conversations'') then TALKS_SHEET self
      else FILMS_LIST_SHEET self)"

definition required_fields :: "pyval \<Rightarrow> string list" where
  "required_fields category =
     (if py_eq category (PStr ''Talks & Conversations'') then talks_fields else film_fields)"


definition has_all :: "pydict \<Rightarrow> string list \<Rightarrow> bool" where
  "has_all d ks = list_all (\<lambda>k. map_of d k \<noteq> None) ks"

text \<open>\<open>ProgrammeManager.replace_sheet_data\<close>.  A data frame is its column labels and its
  rows of values; it is empty when it has no column or no row.  On success the result
  carries the levels of the log records written after the sheet was opened.\<close>

record dataframe =
  columns :: "string list"
  df_values :: "pyval list list"

definition df_empty :: "dataframe \<Rightarrow> bool" where
  "df_empty df = (columns df = [] \<or> df_values df = [])"

datatype log_level = INFO | WARNING

definition replace_sheet_data ::
  "(rat \<Rightarrow> string) \<Rightarrow> store \<Rightarrow> string \<Rightarrow> dataframe \<Rightarrow> store \<times> (exn + log_level list)" where
  "replace_sheet_data float_str st sheet_name df =
     (case get_sheet st sheet_name of
        Inl e \<Rightarrow> (st, Inl e)
      | Inr sheet \<Rightarrow>
          (case batch_clear st sheet A2_Z1000 of
             Inl e \<Rightarrow> (st, Inl e)
           | Inr st1 \<Rightarrow>
               if df_empty df then (st1, Inr [INFO, WARNING])
               else
                 let new_rows = map (map (\<lambda>v. PStr (py_str float_str v))) (df_values df)
                 in (case append_rows st1 sheet new_rows of
                       Inl e \<Rightarrow> (st1, Inl e)
                     | Inr st2 \<Rightarrow> (st2, Inr [INFO, INFO]))))"

section \<open>Scoring engine\<close>

text \<open>
  The save path of the scoring view: the five criterion scores are collected in a list,
  the scores above zero are kept, and the average is their sum divided by their number,
  or \<open>0\<close> when none is left.
\<close>

definition average_of :: "int list \<Rightarrow> rat" where
  "average_of scores =
     (let valid_scores = filter (\<lambda>s. s > 0) scores
      in if valid_scores \<noteq> [] then of_int (sum_list valid_scores) / of_nat (length valid_scores)
         else 0)"

definition computeAverage :: "int \<Rightarrow> int \<Rightarrow> int \<Rightarrow> int \<Rightarrow> int \<Rightarrow> rat" where
  "computeAverage synopsis_score trailer_score director_score writer_score letterboxd_score =
     average_of [synopsis_score, trailer_score, director_score, writer_score, letterboxd_score]"

text \<open>A row of the selection sheet, with the keys of \<open>new_entry\<close>.\<close>

record score_record =
  PROGRAMME_ID :: string
  SYNOPSIS :: int
  TRAILER :: int
  DIRECTOR_PROFILE :: int
  WRITER_PROFILE :: int
  LETTERBOXD_REVIEWS :: int
  AVERAGE_SCORE :: rat
  IS_SELECTED :: bool

text \<open>The upsert of the save path: when the table has rows, the rows with the
  programme identifier of the new entry are dropped; then the new entry is put at the
  end.\<close>

definition upsertScore :: "score_record list \<Rightarrow> score_record \<Rightarrow> score_record list" where
  "upsertScore selection_df new_entry =
     (let selection_df' =
            (if selection_df \<noteq> []
             then filter (\<lambda>r. PROGRAMME_ID r \<noteq> PROGRAMME_ID new_entry) selection_df
             else selection_df)
      in selection_df' @ [new_entry])"

section \<open>Overview ordering\<close>


















section \<open>Image host client\<close>

text \<open>A parsed JSON document; an object is its members in document order.\<close>

datatype json =
    JNull | JBool bool | JNum rat | JStr string | JArr "json list"
  | JObj "(string \<times> json) list"

text \<open>An HTTP response: the status code, the body text, and the body parsed as JSON
  (\<open>None\<close> when the body is not JSON, so that \<open>response.json()\<close> raises).\<close>

record response =
  status_code :: int
  text_body :: string
  json_body :: "json option"

text \<open>Python's truth value of a parsed JSON value.\<close>

fun truthy :: "json \<Rightarrow> bool" where
  "truthy JNull = False"
| "truthy (JBool b) = b"
| "truthy (JNum r) = (r \<noteq> 0)"
| "truthy (JStr s) = (s \<noteq> [])"
| "truthy (JArr xs) = (xs \<noteq> [])"
| "truthy (JObj ms) = (ms \<noteq> [])"

text \<open>\<open>v[k]\<close> with a string key: only an object can be subscripted by a string.\<close>

fun subscript :: "json \<Rightarrow> string \<Rightarrow> exn + json" where
  "subscript (JObj ms) k = (case map_of ms k of None \<Rightarrow> Inl (KeyError k) | Some v \<Rightarrow> Inr v)"
| "subscript v k = Inl TypeError"

text \<open>\<open>ImageUploader._handle_response\<close>.\<close>

definition handle_response :: "response \<Rightarrow> exn + json" where
  "handle_response response =
     (if status_code response \<noteq> 200 then Inl (UploadFailed (text_body response))
      else (case json_body response of
              None \<Rightarrow> Inl JSONDecodeError
            | Some data \<Rightarrow>
                (case data of
                   JObj ms \<Rightarrow>
                     if \<not> truthy (case map_of ms ''success'' of None \<Rightarrow> JNull | Some v \<Rightarrow> v)
                     then Inl ApiError
                     else (case subscript data ''data'' of
                             Inl e \<Rightarrow> Inl e
                           | Inr inner \<Rightarrow> subscript inner ''url'')
                 | _ \<Rightarrow> Inl AttributeError)))"

section \<open>Example data\<close>

text \<open>A configuration with the default sheet names and a small code table, and a
  workbook with a few rows, for evaluating the functions on concrete inputs.\<close>

definition example_config :: config where
  "example_config =
     \<lparr>CATEGORY_CODES = [''Feature Film'' \<mapsto> ''F'', ''Talks & Conversations'' \<mapsto> ''T''],
      FILMS_LIST_SHEET = ''Films'',
      TALKS_SHEET = ''Talks & Conversations'',
      PROGRAMME_SELECTION_SHEET = ''Programme Selection''\<rparr>"

definition example_films :: sheet where
  "example_films =
     \<lparr>header = [''CATEGORY'', ''SL_NO'', ''PROGRAMME_ID'', ''INTERNATIONAL_TITLE'',
         ''ORIGINAL_TITLE'', ''YEAR'', ''RUNNING_TIME'', ''LANGUAGE'', ''COUNTRY'', ''DIRECTOR'',
         ''SYNOPSIS'', ''IMAGE_URL'', ''LETTERBOXD_URL''],
      rows = [[PStr ''Feature Film'', PInt 1, PStr ''F001'', PStr ''First'', PStr ''Onnu'',
               PInt 2024, PInt 100, PStr ''Malayalam'', PStr ''India'', PStr ''A'',
               PStr ''s1'', PStr ''u1'', PStr ''l1''],
              [PStr ''World Cinema'', PInt 1, PStr ''W001'', PStr ''Second'', PStr ''Deux'',
               PInt 2023, PInt 90, PStr ''French'', PStr ''France'', PStr ''B'',
               PStr ''s2'', PStr ''u2'', PStr ''l2''],
              [PStr ''Feature Film'', PInt 2, PStr ''F002'', PStr ''Third'', PStr ''Moonnu'',
               PInt 2025, PInt 120, PStr ''Malayalam'', PStr ''India'', PStr ''C'',
               PStr ''s3'', PStr ''u3'', PStr ''l3'']]\<rparr>"

definition example_talks :: sheet where
  "example_talks =
     \<lparr>header = [''CATEGORY'', ''SL_NO'', ''PROGRAMME_ID'', ''TOPIC'', ''DURATION'', ''IMAGE_URL''],
      rows = [[PStr ''Talks & Conversations'', PInt 1, PStr ''T001'', PStr ''Opening'',
               PInt 60, PStr ''u4'']]\<rparr>"

definition example_store :: store where
  "example_store =
     \<lparr>sheets = [''Films'' \<mapsto> example_films, ''Talks & Conversations'' \<mapsto> example_talks],
      fails = {}\<rparr>"

definition example_score :: "string \<Rightarrow> int \<Rightarrow> bool \<Rightarrow> score_record" where
  "example_score pid s sel =
     \<lparr>PROGRAMME_ID = pid, SYNOPSIS = s, TRAILER = s, DIRECTOR_PROFILE = 0, WRITER_PROFILE = 0,
      LETTERBOXD_REVIEWS = 0, AVERAGE_SCORE = computeAverage s s 0 0 0, IS_SELECTED = sel\<rparr>"

definition example_talk_data :: pydict where
  "example_talk_data =
     [(''category'', PStr ''Talks & Conversations''), (''topic'', PStr ''Closing''),
      (''duration'', PInt 45), (''image_url'', PStr ''u5'')]"

definition example_film_data :: pydict where
  "example_film_data =
     [(''category'', PStr ''Feature Film''), (''international_title'', PStr ''Fourth''),
      (''original_title'', PStr ''Naalu''), (''year'', PInt 2025), (''runtime'', PInt 95),
      (''language'', PStr ''Malayalam''), (''country'', PStr ''India''), (''director'', PStr ''D''),
      (''synopsis'', PStr ''s4''), (''image_url'', PStr ''u6''), (''letterboxd_url'', PStr ''l4'')]"


text \<open>A selection sheet with 1000 score rows: they occupy rows 2 to 1001 of the sheet.\<close>

definition selection_row :: "nat \<Rightarrow> pyval list" where
  "selection_row n =
     [PStr (''F'' @ zfill 3 (str_nat n)), PInt 3, PInt 0, PInt 0, PInt 0, PInt 0, PInt 3,
      PStr ''FALSE'']"

definition big_selection :: sheet where
  "big_selection =
     \<lparr>header = [''PROGRAMME_ID'', ''SYNOPSIS'', ''TRAILER'', ''DIRECTOR_PROFILE'',
         ''WRITER_PROFILE'', ''LETTERBOXD_REVIEWS'', ''AVERAGE_SCORE'', ''IS_SELECTED''],
      rows = map selection_row [1..<1000] @ [selection_row 1000]\<rparr>"

definition big_store :: store where
  "big_store = \<lparr>sheets = [''Programme Selection'' \<mapsto> big_selection], fails = {}\<rparr>"

definition empty_df :: dataframe where
  "empty_df = \<lparr>columns = [], df_values = []\<rparr>"


section \<open>Facts about the decimal rendering\<close>

lemma of_char_digit_char: "d < 10 \<Longrightarrow> (of_char (digit_char d) :: nat) = 48 + d"
  by (simp add: digit_char_def)

lemma digit_char_numeral:
  "digit_char 0 = CHR ''0''" "digit_char 1 = CHR ''1''" "digit_char 2 = CHR ''2''"
  "digit_char 3 = CHR ''3''" "digit_char 4 = CHR ''4''" "digit_char 5 = CHR ''5''"
  "digit_char 6 = CHR ''6''" "digit_char 7 = CHR ''7''" "digit_char 8 = CHR ''8''"
  "digit_char 9 = CHR ''9''" "digit_char (Suc 0) = CHR ''1''"
  by code_simp+

lemma is_digit_digit_char: "d < 10 \<Longrightarrow> is_digit (digit_char d)"
  by (simp add: is_digit_def of_char_digit_char)

lemma str_nat_not_Nil: "str_nat n \<noteq> []"
  by (subst str_nat.simps) simp

lemma str_nat_digits: "list_all is_digit (str_nat n)"
proof (induction n rule: str_nat.induct)
  case (1 n)
  show ?case
  proof (cases "n < 10")
    case True
    then show ?thesis
      by (subst str_nat.simps) (simp add: is_digit_digit_char)
  next
    case False
    with 1 show ?thesis
      by (subst str_nat.simps) (simp add: is_digit_digit_char)
  qed
qed

lemma decimal_value_snoc:
  "decimal_value (s @ [c]) = 10 * decimal_value s + (of_char c - 48)"
  by (simp add: decimal_value_def)

lemma decimal_value_str_nat: "decimal_value (str_nat n) = n"
proof (induction n rule: str_nat.induct)
  case (1 n)
  show ?case
  proof (cases "n < 10")
    case True
    then show ?thesis
      by (subst str_nat.simps) (simp add: decimal_value_def of_char_digit_char)
  next
    case False
    with 1 have "decimal_value (str_nat (n div 10)) = n div 10" by simp
    with False show ?thesis
      by (subst str_nat.simps) (simp add: decimal_value_snoc of_char_digit_char)
  qed
qed

lemma str_nat_inj: "str_nat a = str_nat b \<Longrightarrow> a = b"
  by (metis decimal_value_str_nat)

lemma hd_str_nat_append: "hd (str_nat n @ s) = hd (str_nat n)"
  by (simp add: str_nat_not_Nil)

lemma hd_str_nat_pos: "0 < n \<Longrightarrow> hd (str_nat n) \<noteq> CHR ''0''"
proof (induction n rule: str_nat.induct)
  case (1 n)
  show ?case
  proof (cases "n < 10")
    case True
    with 1(2) have "(of_char (digit_char n) :: nat) \<noteq> 48"
      by (simp add: of_char_digit_char)
    then have "digit_char n \<noteq> CHR ''0''" by auto
    with True show ?thesis
      by (subst str_nat.simps) simp
  next
    case False
    then have "0 < n div 10" by simp
    with 1(1) False have "hd (str_nat (n div 10)) \<noteq> CHR ''0''" by simp
    with False show ?thesis
      by (subst str_nat.simps) (simp add: hd_str_nat_append)
  qed
qed

lemma hd_str_nat_digit: "is_digit (hd (str_nat n))"
  using str_nat_digits [of n] str_nat_not_Nil [of n]
  by (cases "str_nat n") simp_all

lemma hd_str_nat_no_sign: "hd (str_nat n) \<noteq> CHR ''+'' \<and> hd (str_nat n) \<noteq> CHR ''-''"
  using hd_str_nat_digit [of n] by (auto simp: is_digit_def)

lemma zfill_str_nat:
  "zfill w (str_nat n) = replicate (w - length (str_nat n)) CHR ''0'' @ str_nat n"
proof (cases "str_nat n")
  case Nil
  then show ?thesis using str_nat_not_Nil by simp
next
  case (Cons c cs)
  with hd_str_nat_no_sign [of n] have "c \<noteq> CHR ''+''" "c \<noteq> CHR ''-''" by simp_all
  with Cons show ?thesis by (simp add: zfill_def)
qed

lemma dropWhile_zfill_str_nat:
  assumes "0 < n"
  shows "dropWhile (\<lambda>c. c = CHR ''0'') (zfill w (str_nat n)) = str_nat n"
proof -
  obtain c cs where s: "str_nat n = c # cs"
    using str_nat_not_Nil [of n] by (cases "str_nat n") auto
  with hd_str_nat_pos [OF assms] have "c \<noteq> CHR ''0''" by simp
  then have "dropWhile (\<lambda>c. c = CHR ''0'') (replicate k CHR ''0'' @ c # cs) = c # cs" for k
    by (induction k) simp_all
  then have "dropWhile (\<lambda>c. c = CHR ''0'')
      (replicate (w - length (str_nat n)) CHR ''0'' @ str_nat n) = str_nat n"
    by (simp only: s)
  then show ?thesis by (simp only: zfill_str_nat)
qed

lemma zfill_str_int_inj:
  assumes "0 < a" "0 < b" "zfill w (str_int a) = zfill w (str_int b)"
  shows "a = b"
proof -
  from assms have "zfill w (str_nat (nat a)) = zfill w (str_nat (nat b))"
    by (simp add: str_int_def)
  then have "dropWhile (\<lambda>c. c = CHR ''0'') (zfill w (str_nat (nat a)))
           = dropWhile (\<lambda>c. c = CHR ''0'') (zfill w (str_nat (nat b)))"
    by simp
  with assms(1,2) have "str_nat (nat a) = str_nat (nat b)"
    by (simp add: dropWhile_zfill_str_nat)
  then have "nat a = nat b" by (rule str_nat_inj)
  with assms(1,2) show ?thesis by simp
qed

lemma length_str_nat_ge: "10 ^ k \<le> n \<Longrightarrow> k < length (str_nat n)"
proof (induction n arbitrary: k rule: str_nat.induct)
  case (1 n)
  show ?case
  proof (cases "n < 10")
    case True
    have "k = 0"
    proof (cases k)
      case (Suc j)
      have "(1::nat) \<le> 10 ^ j" by simp
      with 1(2) Suc True show ?thesis by simp
    qed simp
    then show ?thesis using str_nat_not_Nil [of n] by (cases "str_nat n") auto
  next
    case False
    show ?thesis
    proof (cases k)
      case 0
      then show ?thesis using str_nat_not_Nil [of n] by (cases "str_nat n") auto
    next
      case (Suc j)
      with 1(2) have "10 ^ j \<le> n div 10" by simp
      with 1(1) False have "j < length (str_nat (n div 10))" by simp
      with False Suc show ?thesis
        by (subst str_nat.simps) simp
    qed
  qed
qed


lemma length_str_nat_small: "n < 10 \<Longrightarrow> length (str_nat n) = 1"
  by (subst str_nat.simps) simp

section \<open>Facts about the average\<close>

lemma sum_list_filter_pos:
  "\<forall>s\<in>set xs. (0::int) \<le> s \<Longrightarrow> sum_list (filter (\<lambda>s. s > 0) xs) = sum_list xs"
  by (induction xs) auto

lemma filter_pos_nonzero:
  "\<forall>s\<in>set xs. (0::int) \<le> s \<Longrightarrow> filter (\<lambda>s. s > 0) xs = filter (\<lambda>s. s \<noteq> 0) xs"
  by (induction xs) auto

lemma average_of_nonneg:
  assumes "\<forall>s\<in>set xs. (0::int) \<le> s"
  shows "average_of xs =
     (if filter (\<lambda>s. s \<noteq> 0) xs = [] then 0
      else of_int (sum_list xs) / of_nat (length (filter (\<lambda>s. s \<noteq> 0) xs)))"
  using sum_list_filter_pos [OF assms] filter_pos_nonzero [OF assms]
  by (simp add: average_of_def)

section \<open>Facts about the programme registry\<close>

lemma py_eq_dict_get_PStr:
  "py_eq (dict_get row k) (PStr c) \<longleftrightarrow> map_of row k = Some (PStr c)"
proof (cases "map_of row k")
  case None
  then show ?thesis by (simp add: dict_get_def)
next
  case (Some v)
  then show ?thesis by (cases v) (simp_all add: dict_get_def)
qed

lemma length_filter_mset_eq:
  "mset xs = mset ys \<Longrightarrow> length (filter P xs) = length (filter P ys)"
  by (metis mset_filter size_mset)

lemma example_films_records:
  "get_all_records example_store ''Films'' = Inr (map (zip (header example_films)) (rows example_films))"
  by (simp add: get_all_records_def sheet_records_def example_store_def example_films_def trim_rows_def
      blank_row_def blank_def pad_row_def)

section \<open>Facts about the upsert\<close>


lemma upsertScore_eq:
  "upsertScore xs new = filter (\<lambda>r. PROGRAMME_ID r \<noteq> PROGRAMME_ID new) xs @ [new]"
  by (simp add: upsertScore_def)

lemma filter_neq_idem:
  "filter (\<lambda>r. f r \<noteq> k) (filter (\<lambda>r. f r \<noteq> k) xs) = filter (\<lambda>r. f r \<noteq> k) xs"
  by simp

lemma filter_eq_of_filter_neq:
  "filter (\<lambda>r. f r = k) (filter (\<lambda>r. f r \<noteq> k) xs) = []"
  by (induction xs) simp_all

lemma distinct_map_filter_snoc:
  assumes "distinct (map f xs)"
  shows "distinct (map f (filter (\<lambda>r. f r \<noteq> f x) xs @ [x]))"
proof -
  have "distinct (map f (filter (\<lambda>r. f r \<noteq> f x) xs))"
    using assms by (rule distinct_map_filter)
  moreover have "f x \<notin> set (map f (filter (\<lambda>r. f r \<noteq> f x) xs))"
    by auto
  ultimately show ?thesis by simp
qed

section \<open>Facts about the upload response\<close>


lemma handle_response_200:
  assumes "status_code r = 200" "json_body r = Some (JObj ms)"
  shows "handle_response r =
     (if truthy (case map_of ms ''success'' of None \<Rightarrow> JNull | Some v \<Rightarrow> v)
      then (case map_of ms ''data'' of None \<Rightarrow> Inl (KeyError ''data'')
            | Some inner \<Rightarrow> subscript inner ''url'')
      else Inl ApiError)"
  unfolding handle_response_def using assms by (simp split: option.splits)

lemma handle_response_not_200:
  "status_code r \<noteq> 200 \<Longrightarrow> handle_response r = Inl (UploadFailed (text_body r))"
  unfolding handle_response_def by simp

lemma handle_response_no_object:
  assumes "status_code r = 200" "\<forall>ms. json_body r \<noteq> Some (JObj ms)"
  shows "\<exists>e. handle_response r = Inl e"
proof (cases "json_body r")
  case None
  with assms(1) show ?thesis unfolding handle_response_def by simp
next
  case (Some data)
  with assms show ?thesis unfolding handle_response_def by (cases data) simp_all
qed

lemma subscript_Inr:
  "subscript v k = Inr u \<longleftrightarrow> (\<exists>ms. v = JObj ms \<and> map_of ms k = Some u)"
  by (cases v) (simp_all split: option.splits)


section \<open>Facts about adding an entry\<close>


lemma py_eq_PStr: "py_eq v (PStr c) \<longleftrightarrow> v = PStr c"
  by (cases v) simp_all

lemma getitem_Some: "map_of d k = Some v \<Longrightarrow> getitem d k = Inr v"
  by (simp add: getitem_def)

lemma getitem_None: "map_of d k = None \<Longrightarrow> getitem d k = Inl (KeyError k)"
  by (simp add: getitem_def)

lemma getitems_has_all:
  "has_all d ks \<Longrightarrow> getitems d ks = Inr (map (\<lambda>k. the (map_of d k)) ks)"
  by (induction ks) (auto simp: has_all_def getitem_def)


lemma generate_sl_no_ok:
  assumes "OpRead \<notin> fails st" "sheets st sheet = Some s"
  shows "generate_sl_no st sheet category =
     Inr (int (length (filter (\<lambda>row. py_eq (dict_get row ''CATEGORY'') category) (sheet_records s))) + 1)"
  using assms by (simp add: generate_sl_no_def get_all_records_def)






lemma add_reaches_append:
  assumes "map_of data ''category'' = Some category"
    and "sheets st (target_sheet self category) = Some s"
    and "OpAccess \<notin> fails st"
    and "OpRead \<notin> fails st"
    and "has_all data (required_fields category)"
  shows "add_programme_entry self st data =
     (let sl_no = int (length (filter (\<lambda>row. py_eq (dict_get row ''CATEGORY'') category)
                                 (sheet_records s))) + 1;
          programme_id = generate_programme_id self category sl_no;
          row = [category, PInt sl_no, PStr programme_id]
                  @ map (\<lambda>k. the (map_of data k)) (required_fields category)
      in if OpAppend \<in> fails st then (st, Inl StoreWriteError)
         else (st\<lparr>sheets := (sheets st)(target_sheet self category \<mapsto>
                    s\<lparr>rows := trim_rows (rows s) @ [row]\<rparr>)\<rparr>, Inr programme_id))"
  using assms(1,2,3) generate_sl_no_ok [OF assms(4) assms(2), of category]
    getitems_has_all [OF assms(5)]
  by (simp add: add_programme_entry_def getitem_def get_sheet_def
      target_sheet_def required_fields_def Let_def append_row_def append_rows_def)


lemma required_fields_talks:
  "required_fields (PStr ''Talks & Conversations'') = [''topic'', ''duration'', ''image_url'']"
  by (simp add: required_fields_def talks_fields_def)

lemma required_fields_films:
  "category \<noteq> PStr ''Talks & Conversations'' \<Longrightarrow>
   required_fields category = [''international_title'', ''original_title'', ''year'', ''runtime'',
     ''language'', ''country'', ''director'', ''synopsis'', ''image_url'', ''letterboxd_url'']"
  by (simp add: required_fields_def film_fields_def py_eq_PStr)

lemma target_sheet_talks: "target_sheet self (PStr ''Talks & Conversations'') = TALKS_SHEET self"
  by (simp add: target_sheet_def)

lemma target_sheet_films:
  "category \<noteq> PStr ''Talks & Conversations'' \<Longrightarrow> target_sheet self category = FILMS_LIST_SHEET self"
  by (simp add: target_sheet_def py_eq_PStr)

lemma example_records_talks:
  "sheet_records example_talks = map (zip (header example_talks)) (rows example_talks)"
  by (simp add: sheet_records_def example_talks_def trim_rows_def blank_row_def blank_def
      pad_row_def)

lemma example_records_films:
  "sheet_records example_films = map (zip (header example_films)) (rows example_films)"
  by (simp add: sheet_records_def example_films_def trim_rows_def blank_row_def blank_def
      pad_row_def)

lemma example_trim:
  "trim_rows (rows example_talks) = rows example_talks"
  "trim_rows (rows example_films) = rows example_films"
  by (simp_all add: example_talks_def example_films_def trim_rows_def blank_row_def blank_def)

lemma example_serials:
  "int (length (filter (\<lambda>row. py_eq (dict_get row ''CATEGORY'') (PStr ''Talks & Conversations''))
      (sheet_records example_talks))) + 1 = 2"
  "int (length (filter (\<lambda>row. py_eq (dict_get row ''CATEGORY'') (PStr ''Feature Film''))
      (sheet_records example_films))) + 1 = 3"
  unfolding example_records_talks example_records_films
  by (simp_all add: example_talks_def example_films_def dict_get_def)

lemma zfill_3_one_digit:
  "n < 10 \<Longrightarrow> zfill 3 (str_nat n) = [CHR ''0'', CHR ''0'', digit_char n]"
proof -
  assume n: "n < 10"
  then have s: "str_nat n = [digit_char n]" by (simp add: str_nat.simps [of n])
  have "zfill 3 (str_nat n) = replicate (3 - length (str_nat n)) CHR ''0'' @ str_nat n"
    by (rule zfill_str_nat)
  then show ?thesis by (simp add: s numeral_2_eq_2)
qed

lemma example_ids:
  "generate_programme_id example_config (PStr ''Talks & Conversations'') 2 = ''T002''"
  "generate_programme_id example_config (PStr ''Feature Film'') 3 = ''F003''"
  by (simp_all add: generate_programme_id_def codes_get_def example_config_def str_int_def
      zfill_3_one_digit digit_char_numeral)

section \<open>Facts about replacing the data of a sheet\<close>


lemma clear_cols_inside:
  "first_col rng \<le> j \<Longrightarrow> j + length r \<le> Suc (last_col rng) \<Longrightarrow>
   clear_cols rng b j r = replicate (length r) b"
  by (induction r arbitrary: j) auto

lemma clear_grid_length: "length (clear_grid rng b i rs) = length rs"
  by (induction rs arbitrary: i) auto

lemma clear_grid_outside_before:
  "i + length rs \<le> first_row rng \<Longrightarrow> clear_grid rng b i rs = rs"
  by (induction rs arbitrary: i) auto

lemma clear_grid_outside_after:
  "last_row rng < i \<Longrightarrow> clear_grid rng b i rs = rs"
  by (induction rs arbitrary: i) auto

lemma clear_grid_inside:
  "first_row rng \<le> i \<Longrightarrow> i + length rs \<le> Suc (last_row rng) \<Longrightarrow>
   clear_grid rng b i rs = map (clear_cols rng b 1) rs"
  by (induction rs arbitrary: i) auto

lemma clear_grid_append:
  "clear_grid rng b i (xs @ ys) = clear_grid rng b i xs @ clear_grid rng b (i + length xs) ys"
  by (induction xs arbitrary: i) auto

lemma trim_rows_snoc: "\<not> blank_row r \<Longrightarrow> trim_rows (rs @ [r]) = rs @ [r]"
  by (simp add: trim_rows_def)

lemma trim_rows_all_blank: "list_all blank_row rs \<Longrightarrow> trim_rows rs = []"
  by (simp add: trim_rows_def list_all_iff)

lemma blank_row_replicate: "blank_row (replicate n blank)"
  by (simp add: blank_row_def list_all_iff)

lemma header_kept:
  "hd (clear_grid A2_Z1000 b 1 [h]) = h" "hd (clear_grid A2_Z1000 b (Suc 0) [h]) = h"
  by (simp_all add: A2_Z1000_def)

text \<open>What the clearing step does to a sheet that reaches below row 1000.\<close>

lemma clear_A2_Z1000_long:
  assumes "length upper = 999" and "\<forall>r\<in>set upper. length r \<le> 26"
  shows "clear_grid A2_Z1000 blank 2 (upper @ below)
           = map (\<lambda>r. replicate (length r) blank) upper @ below"
proof -
  have "clear_grid A2_Z1000 blank 2 upper = map (clear_cols A2_Z1000 blank 1) upper"
    using assms(1) by (intro clear_grid_inside) (simp_all add: A2_Z1000_def)
  also have "\<dots> = map (\<lambda>r. replicate (length r) blank) upper"
    using assms(2) by (intro map_cong refl clear_cols_inside) (auto simp: A2_Z1000_def)
  finally have upper: "clear_grid A2_Z1000 blank 2 upper = map (\<lambda>r. replicate (length r) blank) upper" .
  have "clear_grid A2_Z1000 blank (2 + length upper) below = below"
    using assms(1) by (intro clear_grid_outside_after) (simp add: A2_Z1000_def)
  with upper show ?thesis by (simp add: clear_grid_append)
qed

lemma batch_clear_A2_Z1000:
  assumes "sheets st sheet = Some s" and "OpClear \<notin> fails st"
  shows "batch_clear st sheet A2_Z1000 =
     Inr (st\<lparr>sheets := (sheets st)(sheet \<mapsto> s\<lparr>rows := clear_grid A2_Z1000 blank 2 (rows s)\<rparr>)\<rparr>)"
  using assms by (simp add: batch_clear_def header_kept del: clear_grid.simps)

lemma replace_sheet_data_empty:
  assumes "sheets st sheet_name = Some s" and "fails st = {}" and "df_empty df"
  shows "replace_sheet_data float_str st sheet_name df =
     (st\<lparr>sheets := (sheets st)(sheet_name \<mapsto> s\<lparr>rows := clear_grid A2_Z1000 blank 2 (rows s)\<rparr>)\<rparr>,
      Inr [INFO, WARNING])"
  using assms by (simp add: replace_sheet_data_def get_sheet_def batch_clear_A2_Z1000)

lemma replace_sheet_data_nonempty:
  assumes "sheets st sheet_name = Some s" and "fails st = {}" and "\<not> df_empty df"
  shows "replace_sheet_data float_str st sheet_name df =
     (st\<lparr>sheets := (sheets st)(sheet_name \<mapsto>
          s\<lparr>rows := trim_rows (clear_grid A2_Z1000 blank 2 (rows s))
                     @ map (map (\<lambda>v. PStr (py_str float_str v))) (df_values df)\<rparr>)\<rparr>,
      Inr [INFO, INFO])"
  using assms
  by (simp add: replace_sheet_data_def get_sheet_def batch_clear_A2_Z1000 append_rows_def
      Let_def)

text \<open>A sheet inside the cleared range: the claim's behaviour.\<close>

lemma clear_A2_Z1000_short:
  assumes "length rs \<le> 999" and "\<forall>r\<in>set rs. length r \<le> 26"
  shows "clear_grid A2_Z1000 blank 2 rs = map (\<lambda>r. replicate (length r) blank) rs"
proof -
  have "clear_grid A2_Z1000 blank 2 rs = map (clear_cols A2_Z1000 blank 1) rs"
    using assms(1) by (intro clear_grid_inside) (simp_all add: A2_Z1000_def)
  also have "\<dots> = map (\<lambda>r. replicate (length r) blank) rs"
    using assms(2) by (intro map_cong refl clear_cols_inside) (auto simp: A2_Z1000_def)
  finally show ?thesis .
qed

lemma trim_rows_cleared: "trim_rows (map (\<lambda>r. replicate (length r) blank) rs) = []"
  by (rule trim_rows_all_blank) (simp add: list_all_iff blank_row_replicate)

lemma replace_sheet_data_within_range:
  assumes "sheets st sheet_name = Some s" and "fails st = {}"
    and "length (rows s) \<le> 999" and "\<forall>r\<in>set (rows s). length r \<le> 26"
  shows "df_empty df \<Longrightarrow>
           snd (replace_sheet_data float_str st sheet_name df) = Inr [INFO, WARNING]
           \<and> get_all_records (fst (replace_sheet_data float_str st sheet_name df)) sheet_name = Inr []"
    and "\<not> df_empty df \<Longrightarrow>
           map_option rows (sheets (fst (replace_sheet_data float_str st sheet_name df)) sheet_name)
             = Some (map (map (\<lambda>v. PStr (py_str float_str v))) (df_values df))"
    and "map_option header (sheets (fst (replace_sheet_data float_str st sheet_name df)) sheet_name)
             = Some (header s)"
  using assms
  by (cases "df_empty df";
      simp add: replace_sheet_data_empty replace_sheet_data_nonempty clear_A2_Z1000_short
        trim_rows_cleared get_all_records_def sheet_records_def)+


lemma pad_row_full: "length r = n \<Longrightarrow> pad_row n r = r"
  by (simp add: pad_row_def)

lemma length_selection_row: "length (selection_row n) = 8"
  by (simp add: selection_row_def)

lemma selection_row_not_blank: "\<not> blank_row (selection_row n)"
  by (simp add: selection_row_def blank_row_def blank_def)

lemma big_selection_cleared:
  "clear_grid A2_Z1000 blank 2 (rows big_selection)
     = replicate 999 (replicate 8 blank) @ [selection_row 1000]"
proof -
  have "clear_grid A2_Z1000 blank 2 (map selection_row [1..<1000] @ [selection_row 1000])
      = map (\<lambda>r. replicate (length r) blank) (map selection_row [1..<1000]) @ [selection_row 1000]"
    by (rule clear_A2_Z1000_long) (simp_all add: length_selection_row)
  also have "map (\<lambda>r. replicate (length r) blank) (map selection_row [1..<1000])
      = replicate 999 (replicate 8 blank)"
    by (simp add: length_selection_row map_replicate_const comp_def)
  finally show ?thesis by (simp add: big_selection_def)
qed

text \<open>Clearing twice is clearing once, so a second call with an empty frame changes
  nothing.\<close>

lemma clear_cols_idem: "clear_cols rng b j (clear_cols rng b j r) = clear_cols rng b j r"
  by (induction r arbitrary: j) auto

lemma clear_grid_idem: "clear_grid rng b i (clear_grid rng b i rs) = clear_grid rng b i rs"
  by (induction rs arbitrary: i) (auto simp: clear_cols_idem)

lemma replace_sheet_data_empty_twice:
  assumes "sheets st sheet_name = Some s" and "fails st = {}" and "df_empty df"
  shows "replace_sheet_data float_str
           (fst (replace_sheet_data float_str st sheet_name df)) sheet_name df
         = replace_sheet_data float_str st sheet_name df"
proof -
  let ?s1 = "s\<lparr>rows := clear_grid A2_Z1000 blank 2 (rows s)\<rparr>"
  let ?st1 = "st\<lparr>sheets := (sheets st)(sheet_name \<mapsto> ?s1)\<rparr>"
  have first: "replace_sheet_data float_str st sheet_name df = (?st1, Inr [INFO, WARNING])"
    using assms by (rule replace_sheet_data_empty)
  have s1: "sheets ?st1 sheet_name = Some ?s1" and f1: "fails ?st1 = {}"
    using assms(2) by simp_all
  have "replace_sheet_data float_str ?st1 sheet_name df =
     (?st1\<lparr>sheets := (sheets ?st1)(sheet_name \<mapsto>
          ?s1\<lparr>rows := clear_grid A2_Z1000 blank 2 (rows ?s1)\<rparr>)\<rparr>, Inr [INFO, WARNING])"
    using s1 f1 assms(3) by (rule replace_sheet_data_empty)
  also have "\<dots> = (?st1, Inr [INFO, WARNING])"
    by (simp add: clear_grid_idem)
  finally show ?thesis by (simp add: first)
qed

section \<open>Facts about the overview ordering\<close>
























section \<open>Properties of the planner\<close>

text \<open>
  C1.  For five criterion scores, each between 0 and 5, \<open>computeAverage\<close> is \<open>0\<close> when
  every score is \<open>0\<close>; otherwise it is the sum of the scores divided by the number of
  scores that are not \<open>0\<close>, that is the mean of the scored criteria only: a criterion at
  \<open>0\<close> adds nothing to the sum and is not counted in the divisor.
\<close>

theorem computeAverage_mean_of_scored:
  assumes "\<forall>s\<in>set [a, b, c, d, e]. 0 \<le> s \<and> s \<le> 5"
  shows "computeAverage a b c d e =
     (if a = 0 \<and> b = 0 \<and> c = 0 \<and> d = 0 \<and> e = 0 then 0
      else of_int (a + b + c + d + e)
           / of_nat (length (filter (\<lambda>s. s \<noteq> 0) [a, b, c, d, e])))"
proof -
  from assms have nn: "\<forall>s\<in>set [a, b, c, d, e]. 0 \<le> s" by simp
  have "(filter (\<lambda>s. s \<noteq> 0) [a, b, c, d, e] = []) = (a = 0 \<and> b = 0 \<and> c = 0 \<and> d = 0 \<and> e = 0)"
    by (simp add: filter_empty_conv)
  moreover have "sum_list [a, b, c, d, e] = a + b + c + d + e" by simp
  ultimately show ?thesis
    unfolding computeAverage_def average_of_nonneg [OF nn] by (simp only:)
qed

theorem computeAverage_mean_of_scored_witness:
  "computeAverage 3 4 0 0 0 = 7 / 2 \<and> computeAverage 0 0 0 0 5 = 5
   \<and> computeAverage 0 0 0 0 0 = 0"
  using computeAverage_mean_of_scored [of 3 4 0 0 0]
    computeAverage_mean_of_scored [of 0 0 0 0 5]
    computeAverage_mean_of_scored [of 0 0 0 0 0]
  by simp


text \<open>
  C6.  For a positive serial number, the programme identifier is the category's code (or
  \<open>X\<close> for a category without a code) followed by the serial number in decimal, padded
  with zeros on the left to three characters; the decimal text consists of digits and
  reads back as the serial number.  A category with code \<open>F\<close> and serial 7 gives \<open>F007\<close>;
  a category without a code and serial 1 gives \<open>X001\<close>.
\<close>

theorem generate_programme_id_format:
  assumes "0 < sl_no"
  shows "generate_programme_id self (PStr c) sl_no
           = (case CATEGORY_CODES self c of Some code \<Rightarrow> code | None \<Rightarrow> ''X'')
             @ replicate (3 - length (str_int sl_no)) CHR ''0'' @ str_int sl_no
         \<and> list_all is_digit (str_int sl_no)
         \<and> int (decimal_value (str_int sl_no)) = sl_no
         \<and> (CATEGORY_CODES self c1 = Some ''F'' \<longrightarrow>
              generate_programme_id self (PStr c1) 7 = ''F007'')
         \<and> (CATEGORY_CODES self c2 = None \<longrightarrow>
              generate_programme_id self (PStr c2) 1 = ''X001'')"
proof -
  let ?s = "str_nat (nat sl_no)"
  from assms have si: "str_int sl_no = ?s" by (simp add: str_int_def)
  have "zfill 3 (str_int sl_no) = replicate (3 - length ?s) CHR ''0'' @ ?s"
    by (simp only: si zfill_str_nat)
  then have "generate_programme_id self (PStr c) sl_no
      = (case CATEGORY_CODES self c of Some code \<Rightarrow> code | None \<Rightarrow> ''X'')
        @ replicate (3 - length (str_int sl_no)) CHR ''0'' @ str_int sl_no"
    by (simp add: generate_programme_id_def codes_get_def si)
  moreover have "list_all is_digit (str_int sl_no)"
    by (simp only: si str_nat_digits)
  moreover have "int (decimal_value (str_int sl_no)) = sl_no"
    using assms by (simp add: si decimal_value_str_nat)
  moreover have s7: "str_nat 7 = ''7''" and s1: "str_nat 1 = ''1''" "str_nat (Suc 0) = ''1''"
    by (simp_all add: str_nat.simps digit_char_numeral)
  have "CATEGORY_CODES self c1 = Some ''F'' \<longrightarrow>
           generate_programme_id self (PStr c1) 7 = ''F007''"
    by (simp add: generate_programme_id_def codes_get_def str_int_def s7 zfill_def
        numeral_2_eq_2)
  moreover have "CATEGORY_CODES self c2 = None \<longrightarrow>
           generate_programme_id self (PStr c2) 1 = ''X001''"
    by (simp add: generate_programme_id_def codes_get_def str_int_def s1 zfill_def
        numeral_2_eq_2)
  ultimately show ?thesis by (simp only: simp_thms)
qed

theorem generate_programme_id_format_witness:
  "generate_programme_id example_config (PStr ''Feature Film'') 42 = ''F042''
   \<and> generate_programme_id example_config (PStr ''Feature Film'') 7 = ''F007''
   \<and> generate_programme_id example_config (PStr ''Homage'') 1 = ''X001''"
proof -
  have s: "str_int 42 = ''42''"
    by (simp add: str_int_def str_nat.simps digit_char_numeral)
  show ?thesis
    using generate_programme_id_format
      [of 42 example_config "''Feature Film''" "''Feature Film''" "''Homage''"]
    by (simp add: s example_config_def)
qed

text \<open>
  C10.  Within one category, two different positive serial numbers give two different
  programme identifiers; a serial number of 1000 or more is rendered with all its decimal
  digits, without padding and without truncation.
\<close>

theorem generate_programme_id_injective:
  assumes "0 < a" and "0 < b" and "a \<noteq> b"
  shows "generate_programme_id self category a \<noteq> generate_programme_id self category b
         \<and> (1000 \<le> a \<longrightarrow>
              generate_programme_id self category a = codes_get self category @ str_int a
              \<and> int (decimal_value (str_int a)) = a)"
proof -
  have "generate_programme_id self category a \<noteq> generate_programme_id self category b"
  proof
    assume "generate_programme_id self category a = generate_programme_id self category b"
    then have "zfill 3 (str_int a) = zfill 3 (str_int b)"
      by (simp add: generate_programme_id_def)
    with assms(1,2) have "a = b" by (rule zfill_str_int_inj)
    with assms(3) show False by simp
  qed
  moreover have "1000 \<le> a \<longrightarrow>
      generate_programme_id self category a = codes_get self category @ str_int a
      \<and> int (decimal_value (str_int a)) = a"
  proof
    assume big: "1000 \<le> a"
    then have "10 ^ 3 \<le> nat a" by simp
    then have "3 < length (str_nat (nat a))" by (rule length_str_nat_ge)
    with big have "zfill 3 (str_int a) = str_int a"
      by (simp add: zfill_def str_int_def)
    moreover from big have "int (decimal_value (str_int a)) = a"
      by (simp add: str_int_def decimal_value_str_nat)
    ultimately show "generate_programme_id self category a
           = codes_get self category @ str_int a
         \<and> int (decimal_value (str_int a)) = a"
      by (simp add: generate_programme_id_def)
  qed
  ultimately show ?thesis by (rule conjI)
qed

theorem generate_programme_id_injective_witness:
  "generate_programme_id example_config (PStr ''Homage'') 1000
       \<noteq> generate_programme_id example_config (PStr ''Homage'') 999
   \<and> generate_programme_id example_config (PStr ''Homage'') 1000 = ''X1000''"
proof -
  have s: "str_int 1000 = ''1000''"
    by (simp add: str_int_def str_nat.simps digit_char_numeral)
  show ?thesis
    using generate_programme_id_injective [of 1000 999 example_config "PStr ''Homage''"]
    by (auto simp: s codes_get_def example_config_def)
qed

text \<open>
  C5.  When the rows read from the sheet are, in any order, \<open>N\<close> rows whose \<open>CATEGORY\<close>
  cell is the target category and \<open>M\<close> rows where it is anything else (or absent),
  \<open>generate_sl_no\<close> returns \<open>N + 1\<close>, whatever \<open>M\<close> and the order are.
\<close>

theorem generate_sl_no_count:
  assumes "get_all_records st sheet = Inr data"
    and "mset data = mset (cs @ os)"
    and "\<forall>row\<in>set cs. map_of row ''CATEGORY'' = Some (PStr c)"
    and "\<forall>row\<in>set os. map_of row ''CATEGORY'' \<noteq> Some (PStr c)"
  shows "generate_sl_no st sheet (PStr c) = Inr (int (length cs) + 1)"
proof -
  let ?P = "\<lambda>row. py_eq (dict_get row ''CATEGORY'') (PStr c)"
  have "length (filter ?P data) = length (filter ?P (cs @ os))"
    using assms(2) by (rule length_filter_mset_eq)
  moreover have "filter ?P cs = cs"
    using assms(3) by (simp add: py_eq_dict_get_PStr)
  moreover have "filter ?P os = []"
    using assms(4) by (simp add: py_eq_dict_get_PStr)
  ultimately have "length (filter ?P data) = length cs" by simp
  with assms(1) show ?thesis by (simp add: generate_sl_no_def)
qed

theorem generate_sl_no_count_witness:
  "generate_sl_no example_store ''Films'' (PStr ''Feature Film'') = Inr 3
   \<and> generate_sl_no example_store ''Films'' (PStr ''World Cinema'') = Inr 2
   \<and> generate_sl_no example_store ''Films'' (PStr ''Homage'') = Inr 1"
proof -
  let ?rs = "map (zip (header example_films)) (rows example_films)"
  have a: "generate_sl_no example_store ''Films'' (PStr ''Feature Film'') = Inr (int (length [?rs ! 0, ?rs ! 2]) + 1)"
    by (rule generate_sl_no_count [OF example_films_records, where os = "[?rs ! 1]"])
      (simp_all add: example_films_def)
  have b: "generate_sl_no example_store ''Films'' (PStr ''World Cinema'') = Inr (int (length [?rs ! 1]) + 1)"
    by (rule generate_sl_no_count [OF example_films_records, where os = "[?rs ! 0, ?rs ! 2]"])
      (simp_all add: example_films_def)
  have c: "generate_sl_no example_store ''Films'' (PStr ''Homage'') = Inr (int (length ([] :: pydict list)) + 1)"
    by (rule generate_sl_no_count [OF example_films_records, where os = "?rs"])
      (simp_all add: example_films_def)
  from a b c show ?thesis by simp
qed


text \<open>
  C3.  For every list of score records and every new record, \<open>upsertScore\<close> leaves exactly
  one record with the new record's programme identifier, the new record itself; the records
  with other identifiers are kept as they were; the result is the same as on the list
  without any record for that identifier, so it does not depend on whether one existed;
  when no identifier occurs twice before, none occurs twice after; and a second upsert for
  the same identifier leaves exactly one record for it, the second one.
\<close>

theorem upsertScore_replaces:
  "filter (\<lambda>r. PROGRAMME_ID r = PROGRAMME_ID new) (upsertScore xs new) = [new]
   \<and> filter (\<lambda>r. PROGRAMME_ID r \<noteq> PROGRAMME_ID new) (upsertScore xs new)
       = filter (\<lambda>r. PROGRAMME_ID r \<noteq> PROGRAMME_ID new) xs
   \<and> upsertScore xs new
       = upsertScore (filter (\<lambda>r. PROGRAMME_ID r \<noteq> PROGRAMME_ID new) xs) new
   \<and> (distinct (map PROGRAMME_ID xs) \<longrightarrow> distinct (map PROGRAMME_ID (upsertScore xs new)))
   \<and> (PROGRAMME_ID second = PROGRAMME_ID new \<longrightarrow>
        filter (\<lambda>r. PROGRAMME_ID r = PROGRAMME_ID new) (upsertScore (upsertScore xs new) second)
          = [second])"
proof -
  let ?keep = "filter (\<lambda>r. PROGRAMME_ID r \<noteq> PROGRAMME_ID new) xs"
  have one: "filter (\<lambda>r. PROGRAMME_ID r = PROGRAMME_ID new) (upsertScore xs new) = [new]"
    by (simp add: upsertScore_eq filter_eq_of_filter_neq)
  have others: "filter (\<lambda>r. PROGRAMME_ID r \<noteq> PROGRAMME_ID new) (upsertScore xs new) = ?keep"
    by (simp add: upsertScore_eq)
  have same: "upsertScore xs new = upsertScore ?keep new"
    by (simp add: upsertScore_eq)
  have inv: "distinct (map PROGRAMME_ID xs) \<longrightarrow> distinct (map PROGRAMME_ID (upsertScore xs new))"
    unfolding upsertScore_eq by (rule impI) (rule distinct_map_filter_snoc)
  have twice: "PROGRAMME_ID second = PROGRAMME_ID new \<longrightarrow>
        filter (\<lambda>r. PROGRAMME_ID r = PROGRAMME_ID new) (upsertScore (upsertScore xs new) second)
          = [second]"
  proof
    assume eq: "PROGRAMME_ID second = PROGRAMME_ID new"
    have "filter (\<lambda>r. PROGRAMME_ID r = PROGRAMME_ID second)
            (upsertScore (upsertScore xs new) second) = [second]"
      by (simp add: upsertScore_eq [of _ second] filter_eq_of_filter_neq)
    with eq show "filter (\<lambda>r. PROGRAMME_ID r = PROGRAMME_ID new)
            (upsertScore (upsertScore xs new) second) = [second]"
      by simp
  qed
  from one others same inv twice show ?thesis by (simp only: simp_thms)
qed

theorem upsertScore_replaces_witness:
  "upsertScore [example_score ''F001'' 3 False, example_score ''F002'' 4 True]
       (example_score ''F001'' 5 True)
     = [example_score ''F002'' 4 True, example_score ''F001'' 5 True]
   \<and> distinct (map PROGRAMME_ID
       (upsertScore [example_score ''F001'' 3 False, example_score ''F002'' 4 True]
          (example_score ''F001'' 5 True)))
   \<and> filter (\<lambda>r. PROGRAMME_ID r = ''F001'')
       (upsertScore (upsertScore [example_score ''F001'' 3 False, example_score ''F002'' 4 True]
          (example_score ''F001'' 5 True)) (example_score ''F001'' 2 False))
     = [example_score ''F001'' 2 False]"
  using upsertScore_replaces [of "example_score ''F001'' 5 True"
      "[example_score ''F001'' 3 False, example_score ''F002'' 4 True]"
      "example_score ''F001'' 2 False"]
  by (simp add: upsertScore_def example_score_def)



text \<open>
  C9.  \<open>_handle_response\<close> fails with the upload failure (carrying the response text) when
  the status code is not 200, which covers every status that is not a success; it fails
  with the API error when the status is 200 and the \<open>success\<close> member of the JSON object is
  absent or false; when the status is 200, \<open>success\<close> is true and \<open>data.url\<close> is present it
  returns that member; and it returns a value only in that case.
\<close>

theorem handle_response_outcomes:
  "(status_code r \<noteq> 200 \<longrightarrow> handle_response r = Inl (UploadFailed (text_body r)))
   \<and> (status_code r = 200 \<and> json_body r = Some (JObj ms)
        \<and> \<not> truthy (case map_of ms ''success'' of None \<Rightarrow> JNull | Some v \<Rightarrow> v)
        \<longrightarrow> handle_response r = Inl ApiError)
   \<and> (status_code r = 200 \<and> json_body r = Some (JObj ms)
        \<and> map_of ms ''success'' = Some flag \<and> truthy flag
        \<and> map_of ms ''data'' = Some (JObj inner) \<and> map_of inner ''url'' = Some url
        \<longrightarrow> handle_response r = Inr url)
   \<and> (handle_response r = Inr u \<longrightarrow>
        status_code r = 200
        \<and> (\<exists>ms' flag' inner'. json_body r = Some (JObj ms')
              \<and> map_of ms' ''success'' = Some flag' \<and> truthy flag'
              \<and> map_of ms' ''data'' = Some (JObj inner') \<and> map_of inner' ''url'' = Some u))"
proof -
  have a: "status_code r \<noteq> 200 \<longrightarrow> handle_response r = Inl (UploadFailed (text_body r))"
    by (simp add: handle_response_not_200)
  have b: "status_code r = 200 \<and> json_body r = Some (JObj ms)
        \<and> \<not> truthy (case map_of ms ''success'' of None \<Rightarrow> JNull | Some v \<Rightarrow> v)
        \<longrightarrow> handle_response r = Inl ApiError"
  proof (intro impI, elim conjE)
    assume st: "status_code r = 200" and body: "json_body r = Some (JObj ms)"
      and nt: "\<not> truthy (case map_of ms ''success'' of None \<Rightarrow> JNull | Some v \<Rightarrow> v)"
    from nt show "handle_response r = Inl ApiError"
      by (subst handle_response_200 [OF st body]) (rule if_not_P)
  qed
  have c: "status_code r = 200 \<and> json_body r = Some (JObj ms)
        \<and> map_of ms ''success'' = Some flag \<and> truthy flag
        \<and> map_of ms ''data'' = Some (JObj inner) \<and> map_of inner ''url'' = Some url
        \<longrightarrow> handle_response r = Inr url"
  proof (intro impI, elim conjE)
    assume st: "status_code r = 200" and body: "json_body r = Some (JObj ms)"
      and fl: "map_of ms ''success'' = Some flag" and tr: "truthy flag"
      and dt: "map_of ms ''data'' = Some (JObj inner)" and ur: "map_of inner ''url'' = Some url"
    from fl tr have "truthy (case map_of ms ''success'' of None \<Rightarrow> JNull | Some v \<Rightarrow> v)"
      by simp
    then have "handle_response r = (case map_of ms ''data'' of None \<Rightarrow> Inl (KeyError ''data'')
            | Some inner \<Rightarrow> subscript inner ''url'')"
      by (subst handle_response_200 [OF st body]) (rule if_P)
    with dt ur show "handle_response r = Inr url" by simp
  qed
  have d: "handle_response r = Inr u \<longrightarrow>
        status_code r = 200
        \<and> (\<exists>ms' flag' inner'. json_body r = Some (JObj ms')
              \<and> map_of ms' ''success'' = Some flag' \<and> truthy flag'
              \<and> map_of ms' ''data'' = Some (JObj inner') \<and> map_of inner' ''url'' = Some u)"
  proof
    assume ok: "handle_response r = Inr u"
    have st: "status_code r = 200"
    proof (rule ccontr)
      assume "status_code r \<noteq> 200"
      then have "handle_response r = Inl (UploadFailed (text_body r))"
        by (rule handle_response_not_200)
      with ok show False by simp
    qed
    have "\<not> (\<forall>ms. json_body r \<noteq> Some (JObj ms))"
    proof
      assume "\<forall>ms. json_body r \<noteq> Some (JObj ms)"
      with st have "\<exists>e. handle_response r = Inl e" by (rule handle_response_no_object)
      with ok show False by auto
    qed
    then obtain ms' where body: "json_body r = Some (JObj ms')" by blast
    note eq = handle_response_200 [OF st body]
    have tr: "truthy (case map_of ms' ''success'' of None \<Rightarrow> JNull | Some v \<Rightarrow> v)"
    proof (rule ccontr)
      assume "\<not> truthy (case map_of ms' ''success'' of None \<Rightarrow> JNull | Some v \<Rightarrow> v)"
      then have "handle_response r = Inl ApiError"
        by (subst eq) (rule if_not_P)
      with ok show False by simp
    qed
    then obtain flag' where flag': "map_of ms' ''success'' = Some flag'" "truthy flag'"
      by (cases "map_of ms' ''success''") simp_all
    from tr have "handle_response r = (case map_of ms' ''data'' of None \<Rightarrow> Inl (KeyError ''data'')
            | Some inner \<Rightarrow> subscript inner ''url'')"
      by (subst eq) (rule if_P)
    with ok have sub: "(case map_of ms' ''data'' of None \<Rightarrow> Inl (KeyError ''data'')
            | Some inner \<Rightarrow> subscript inner ''url'') = Inr u"
      by simp
    then obtain v where v: "map_of ms' ''data'' = Some v" "subscript v ''url'' = Inr u"
      by (cases "map_of ms' ''data''") simp_all
    from v(2) obtain inner' where inner': "v = JObj inner'" "map_of inner' ''url'' = Some u"
      unfolding subscript_Inr by blast
    from st body flag' v(1) inner'
    show "status_code r = 200
        \<and> (\<exists>ms' flag' inner'. json_body r = Some (JObj ms')
              \<and> map_of ms' ''success'' = Some flag' \<and> truthy flag'
              \<and> map_of ms' ''data'' = Some (JObj inner') \<and> map_of inner' ''url'' = Some u)"
      by blast
  qed
  show ?thesis by (rule conjI [OF a conjI [OF b conjI [OF c d]]])
qed


theorem handle_response_outcomes_witness:
  "handle_response \<lparr>status_code = 500, text_body = ''Internal Server Error'', json_body = None\<rparr>
     = Inl (UploadFailed ''Internal Server Error'')
   \<and> handle_response \<lparr>status_code = 200, text_body = ''{...}'',
        json_body = Some (JObj [(''success'', JBool False), (''status'', JNum 400)])\<rparr>
     = Inl ApiError
   \<and> handle_response \<lparr>status_code = 200, text_body = ''{...}'',
        json_body = Some (JObj [(''data'', JObj [(''id'', JStr ''abc''), (''url'', JStr ''https://i.ibb.co/abc/p.jpg'')]),
                                (''success'', JBool True), (''status'', JNum 200)])\<rparr>
     = Inr (JStr ''https://i.ibb.co/abc/p.jpg'')"
  using
    handle_response_outcomes [of "\<lparr>status_code = 500, text_body = ''Internal Server Error'', json_body = None\<rparr>"]
    handle_response_outcomes [of "\<lparr>status_code = 200, text_body = ''{...}'',
        json_body = Some (JObj [(''success'', JBool False), (''status'', JNum 400)])\<rparr>"
        "[(''success'', JBool False), (''status'', JNum 400)]"]
    handle_response_outcomes [of "\<lparr>status_code = 200, text_body = ''{...}'',
        json_body = Some (JObj [(''data'', JObj [(''id'', JStr ''abc''), (''url'', JStr ''https://i.ibb.co/abc/p.jpg'')]),
                                (''success'', JBool True), (''status'', JNum 200)])\<rparr>"
        "[(''data'', JObj [(''id'', JStr ''abc''), (''url'', JStr ''https://i.ibb.co/abc/p.jpg'')]),
                                (''success'', JBool True), (''status'', JNum 200)]"
        "JBool True" "[(''id'', JStr ''abc''), (''url'', JStr ''https://i.ibb.co/abc/p.jpg'')]"
        "JStr ''https://i.ibb.co/abc/p.jpg''"]
  by simp


text \<open>
  C7.  For a submission that carries every field of its variant, on a workbook whose calls
  succeed, \<open>add_programme_entry\<close> works on the talks sheet when the category is the talks
  category and on the films sheet otherwise; the serial number is the one
  \<open>generate_sl_no\<close> computes from that sheet as it is at the call; the identifier is
  \<open>generate_programme_id\<close> of the category and that serial number; one row is appended
  after the last row in use, with the cells category, serial, identifier and then topic,
  duration, image URL for a talk, or international title, original title, year, runtime,
  language, country, director, synopsis, image URL, review URL for a film; and the
  identifier is returned.
\<close>

theorem add_programme_entry_appends_row:
  assumes "fails st = {}"
    and "map_of data ''category'' = Some category"
  shows
   "(category = PStr ''Talks & Conversations'' \<and> sheets st (TALKS_SHEET self) = Some s
      \<and> map_of data ''topic'' = Some topic \<and> map_of data ''duration'' = Some duration
      \<and> map_of data ''image_url'' = Some image_url
     \<longrightarrow> (let sl_no = int (length (filter (\<lambda>row. py_eq (dict_get row ''CATEGORY'') category)
                                       (sheet_records s))) + 1;
              programme_id = generate_programme_id self category sl_no
          in generate_sl_no st (TALKS_SHEET self) category = Inr sl_no
             \<and> add_programme_entry self st data =
                 (st\<lparr>sheets := (sheets st)(TALKS_SHEET self \<mapsto>
                      s\<lparr>rows := trim_rows (rows s) @
                        [[category, PInt sl_no, PStr programme_id, topic, duration, image_url]]\<rparr>)\<rparr>,
                  Inr programme_id)))
    \<and> (category \<noteq> PStr ''Talks & Conversations'' \<and> sheets st (FILMS_LIST_SHEET self) = Some s
      \<and> map_of data ''international_title'' = Some intl_title
      \<and> map_of data ''original_title'' = Some orig_title
      \<and> map_of data ''year'' = Some year \<and> map_of data ''runtime'' = Some run_time
      \<and> map_of data ''language'' = Some language \<and> map_of data ''country'' = Some country
      \<and> map_of data ''director'' = Some director \<and> map_of data ''synopsis'' = Some synopsis
      \<and> map_of data ''image_url'' = Some image_url
      \<and> map_of data ''letterboxd_url'' = Some letterboxd_url
     \<longrightarrow> (let sl_no = int (length (filter (\<lambda>row. py_eq (dict_get row ''CATEGORY'') category)
                                       (sheet_records s))) + 1;
              programme_id = generate_programme_id self category sl_no
          in generate_sl_no st (FILMS_LIST_SHEET self) category = Inr sl_no
             \<and> add_programme_entry self st data =
                 (st\<lparr>sheets := (sheets st)(FILMS_LIST_SHEET self \<mapsto>
                      s\<lparr>rows := trim_rows (rows s) @
                        [[category, PInt sl_no, PStr programme_id, intl_title, orig_title, year,
                          run_time, language, country, director, synopsis, image_url,
                          letterboxd_url]]\<rparr>)\<rparr>,
                  Inr programme_id)))"
proof (intro conjI impI; elim conjE)
  from assms(1) have ok: "OpAccess \<notin> fails st" "OpRead \<notin> fails st" "OpAppend \<notin> fails st"
    by simp_all
  {
    assume cat: "category = PStr ''Talks & Conversations''"
      and s: "sheets st (TALKS_SHEET self) = Some s"
      and f: "map_of data ''topic'' = Some topic" "map_of data ''duration'' = Some duration"
        "map_of data ''image_url'' = Some image_url"
    from s cat have s': "sheets st (target_sheet self category) = Some s"
      by (simp add: target_sheet_talks)
    from f cat have all: "has_all data (required_fields category)"
      by (simp add: required_fields_talks has_all_def)
    show "let sl_no = int (length (filter (\<lambda>row. py_eq (dict_get row ''CATEGORY'') category)
                                       (sheet_records s))) + 1;
              programme_id = generate_programme_id self category sl_no
          in generate_sl_no st (TALKS_SHEET self) category = Inr sl_no
             \<and> add_programme_entry self st data =
                 (st\<lparr>sheets := (sheets st)(TALKS_SHEET self \<mapsto>
                      s\<lparr>rows := trim_rows (rows s) @
                        [[category, PInt sl_no, PStr programme_id, topic, duration, image_url]]\<rparr>)\<rparr>,
                  Inr programme_id)"
      using add_reaches_append [OF assms(2) s' ok(1,2) all] generate_sl_no_ok [OF ok(2) s, of category]
        ok(3) f cat
      by (simp add: Let_def required_fields_talks target_sheet_talks)
  }
  {
    assume cat: "category \<noteq> PStr ''Talks & Conversations''"
      and s: "sheets st (FILMS_LIST_SHEET self) = Some s"
      and f: "map_of data ''international_title'' = Some intl_title"
        "map_of data ''original_title'' = Some orig_title"
        "map_of data ''year'' = Some year" "map_of data ''runtime'' = Some run_time"
        "map_of data ''language'' = Some language" "map_of data ''country'' = Some country"
        "map_of data ''director'' = Some director" "map_of data ''synopsis'' = Some synopsis"
        "map_of data ''image_url'' = Some image_url"
        "map_of data ''letterboxd_url'' = Some letterboxd_url"
    from s cat have s': "sheets st (target_sheet self category) = Some s"
      by (simp add: target_sheet_films)
    from f cat have all: "has_all data (required_fields category)"
      by (simp add: required_fields_films has_all_def)
    show "let sl_no = int (length (filter (\<lambda>row. py_eq (dict_get row ''CATEGORY'') category)
                                       (sheet_records s))) + 1;
              programme_id = generate_programme_id self category sl_no
          in generate_sl_no st (FILMS_LIST_SHEET self) category = Inr sl_no
             \<and> add_programme_entry self st data =
                 (st\<lparr>sheets := (sheets st)(FILMS_LIST_SHEET self \<mapsto>
                      s\<lparr>rows := trim_rows (rows s) @
                        [[category, PInt sl_no, PStr programme_id, intl_title, orig_title, year,
                          run_time, language, country, director, synopsis, image_url,
                          letterboxd_url]]\<rparr>)\<rparr>,
                  Inr programme_id)"
      using add_reaches_append [OF assms(2) s' ok(1,2) all] generate_sl_no_ok [OF ok(2) s, of category]
        ok(3) f cat
      by (simp add: Let_def required_fields_films target_sheet_films)
  }
qed


theorem add_programme_entry_appends_row_witness:
  "add_programme_entry example_config example_store example_talk_data =
     (example_store\<lparr>sheets := (sheets example_store)(''Talks & Conversations'' \<mapsto>
        example_talks\<lparr>rows := rows example_talks @
          [[PStr ''Talks & Conversations'', PInt 2, PStr ''T002'', PStr ''Closing'', PInt 45,
            PStr ''u5'']]\<rparr>)\<rparr>,
      Inr ''T002'')
   \<and> add_programme_entry example_config example_store example_film_data =
     (example_store\<lparr>sheets := (sheets example_store)(''Films'' \<mapsto>
        example_films\<lparr>rows := rows example_films @
          [[PStr ''Feature Film'', PInt 3, PStr ''F003'', PStr ''Fourth'', PStr ''Naalu'',
            PInt 2025, PInt 95, PStr ''Malayalam'', PStr ''India'', PStr ''D'', PStr ''s4'',
            PStr ''u6'', PStr ''l4'']]\<rparr>)\<rparr>,
      Inr ''F003'')"
proof -
  have t: "add_programme_entry example_config example_store example_talk_data =
     (example_store\<lparr>sheets := (sheets example_store)(''Talks & Conversations'' \<mapsto>
        example_talks\<lparr>rows := rows example_talks @
          [[PStr ''Talks & Conversations'', PInt 2, PStr ''T002'', PStr ''Closing'', PInt 45,
            PStr ''u5'']]\<rparr>)\<rparr>,
      Inr ''T002'')"
    using add_programme_entry_appends_row
      [where st = example_store and data = example_talk_data and self = example_config
        and category = "PStr ''Talks & Conversations''" and s = example_talks
        and topic = "PStr ''Closing''" and duration = "PInt 45" and image_url = "PStr ''u5''"]
    by (simp add: example_serials example_ids example_trim Let_def)
      (simp add: example_store_def example_talk_data_def example_config_def)
  have f: "add_programme_entry example_config example_store example_film_data =
     (example_store\<lparr>sheets := (sheets example_store)(''Films'' \<mapsto>
        example_films\<lparr>rows := rows example_films @
          [[PStr ''Feature Film'', PInt 3, PStr ''F003'', PStr ''Fourth'', PStr ''Naalu'',
            PInt 2025, PInt 95, PStr ''Malayalam'', PStr ''India'', PStr ''D'', PStr ''s4'',
            PStr ''u6'', PStr ''l4'']]\<rparr>)\<rparr>,
      Inr ''F003'')"
    using add_programme_entry_appends_row
      [where st = example_store and data = example_film_data and self = example_config
        and category = "PStr ''Feature Film''" and s = example_films
        and intl_title = "PStr ''Fourth''" and orig_title = "PStr ''Naalu''"
        and year = "PInt 2025" and run_time = "PInt 95" and language = "PStr ''Malayalam''"
        and country = "PStr ''India''" and director = "PStr ''D''" and synopsis = "PStr ''s4''"
        and image_url = "PStr ''u6''" and letterboxd_url = "PStr ''l4''"]
    by (simp add: example_serials example_ids example_trim Let_def)
      (simp add: example_store_def example_film_data_def example_config_def)
  from t f show ?thesis by (rule conjI)
qed





text \<open>
  C4.  \<open>replace_sheet_data\<close> clears the range \<open>A2:Z1000\<close>, not every data row.  On a
  selection sheet with 1000 score rows (sheet rows 2 to 1001) and an empty data frame, the
  call logs the warning and appends nothing, but the sheet is not left without data rows:
  rows 2 to 1000 are blank and row 1001 still holds its record, so that reading the sheet
  afterwards yields 1000 records.  For a sheet that lies inside the range,
  \<open>replace_sheet_data_within_range\<close> shows that the data rows are all cleared, and
  \<open>replace_sheet_data_empty_twice\<close> that a second call with an empty frame changes nothing.
\<close>

theorem replace_sheet_data_leaves_row_1001:
  "snd (replace_sheet_data float_str big_store ''Programme Selection'' empty_df)
     = Inr [INFO, WARNING]
   \<and> get_all_records
       (fst (replace_sheet_data float_str big_store ''Programme Selection'' empty_df))
       ''Programme Selection''
     = Inr (map (zip (header big_selection))
              (replicate 999 (replicate 8 blank) @ [selection_row 1000]))
   \<and> length (replicate 999 (replicate 8 blank) @ [selection_row 1000]) = 1000"
proof -
  have s: "sheets big_store ''Programme Selection'' = Some big_selection"
    and f: "fails big_store = {}"
    by (simp_all add: big_store_def)
  have e: "df_empty empty_df" by (simp add: df_empty_def empty_df_def)
  note r = replace_sheet_data_empty [OF s f e, of float_str]
  have h: "length (header big_selection) = 8" by (simp add: big_selection_def)
  have p: "pad_row 8 (replicate 8 blank) = replicate 8 blank"
    "pad_row 8 (selection_row 1000) = selection_row 1000"
    by (simp_all add: pad_row_full length_selection_row)
  have "get_all_records
       (fst (replace_sheet_data float_str big_store ''Programme Selection'' empty_df))
       ''Programme Selection''
     = Inr (map (zip (header big_selection))
              (replicate 999 (replicate 8 blank) @ [selection_row 1000]))"
    unfolding r
    by (simp add: get_all_records_def sheet_records_def f big_selection_cleared
        trim_rows_snoc selection_row_not_blank h p)
  with r show ?thesis by simp
qed





end
